theory Spec2Isabelle
  imports Main
begin

unbundle bit_operations_syntax

section \<open>Strings and formatting\<close>

text \<open>
  A \<^verbatim>\<open>wxString\<close> is a sequence of \<^verbatim>\<open>wxUniChar\<close> code values. A code value is kept as
  a natural number (the C++ type holds 32 bits; every operation of the plot code on a
  character is an equality test or a masked bit operation, so no wrap-around occurs).
  \<open>wxT\<close> is the literal macro of the source: it turns the text of a literal into such a
  sequence.
\<close>

type_synonym wxUniChar = nat
type_synonym wxString = "wxUniChar list"

definition wxT :: "string \<Rightarrow> wxString" where
  "wxT s = map of_char s"

definition wxChr :: "char \<Rightarrow> wxUniChar" where
  "wxChr c = of_char c"

text \<open>
  \<^verbatim>\<open>wxString::Replace(old, new)\<close> with the default \<^verbatim>\<open>replaceAll = true\<close>. Every call in
  \<^verbatim>\<open>pcbplot.cpp\<close> passes a pattern of exactly one character, which is what is modelled:
  each occurrence of the character \<open>old\<close> becomes the string \<open>new\<close>.
\<close>

definition Replace :: "wxUniChar \<Rightarrow> wxString \<Rightarrow> wxString \<Rightarrow> wxString" where
  "Replace old new s = concat (map (\<lambda>c. if c = old then new else [c]) s)"

text \<open>
  \<^verbatim>\<open>wxString::Trim(bFromRight)\<close> removes the characters for which \<^verbatim>\<open>wxSafeIsspace\<close>
  holds (code below 127 and \<^verbatim>\<open>isspace\<close>: space, tab, line feed, vertical tab, form feed,
  carriage return) from the right end when \<open>bFromRight\<close> is true, from the left end
  otherwise.
\<close>

definition wxSafeIsspace :: "wxUniChar \<Rightarrow> bool" where
  "wxSafeIsspace c = (c = 32 \<or> c = 9 \<or> c = 10 \<or> c = 11 \<or> c = 12 \<or> c = 13)"

definition Trim :: "bool \<Rightarrow> wxString \<Rightarrow> wxString" where
  "Trim bFromRight s =
     (if bFromRight then rev (dropWhile wxSafeIsspace (rev s))
      else dropWhile wxSafeIsspace s)"

text \<open>
  A string handed to a \<^verbatim>\<open>%s\<close> conversion (through \<^verbatim>\<open>GetChars\<close>, \<^verbatim>\<open>GetData\<close>,
  \<^verbatim>\<open>ToAscii\<close> or directly) is read as a C string: it ends at the first NUL.
\<close>

definition GetChars :: "wxString \<Rightarrow> wxString" where
  "GetChars s = takeWhile (\<lambda>c. c \<noteq> 0) s"

text \<open>\<^verbatim>\<open>wxString::ToAscii\<close>: every character above 127 is replaced by an underscore.\<close>

definition ToAscii :: "wxString \<Rightarrow> wxString" where
  "ToAscii s = map (\<lambda>c. if c > 127 then wxChr CHR ''_'' else c) s"

text \<open>The digits of \<^verbatim>\<open>%d\<close> and \<^verbatim>\<open>%x\<close>.\<close>

fun dec_nat :: "nat \<Rightarrow> wxString" where
  "dec_nat n =
     (if n < 10 then [wxT ''0123456789'' ! n]
      else dec_nat (n div 10) @ [wxT ''0123456789'' ! (n mod 10)])"

fun hex_nat :: "nat \<Rightarrow> wxString" where
  "hex_nat n =
     (if n < 16 then [wxT ''0123456789abcdef'' ! n]
      else hex_nat (n div 16) @ [wxT ''0123456789abcdef'' ! (n mod 16)])"

declare dec_nat.simps [simp del] hex_nat.simps [simp del]

text \<open>\<^verbatim>\<open>%d\<close> of a C \<^verbatim>\<open>int\<close>.\<close>

definition fmt_d :: "int \<Rightarrow> wxString" where
  "fmt_d i = (if i < 0 then wxT ''-'' @ dec_nat (nat (- i)) else dec_nat (nat i))"

text \<open>
  \<^verbatim>\<open>%x\<close> with a precision: at least \<open>prec\<close> digits, padded on the left with zeros
  (\<^verbatim>\<open>%2.2x\<close> is \<open>fmt_x 2\<close>, \<^verbatim>\<open>%3.3x\<close> is \<open>fmt_x 3\<close>, the plain \<^verbatim>\<open>%x\<close> is \<open>fmt_x 1\<close>).
\<close>

definition fmt_x :: "nat \<Rightarrow> nat \<Rightarrow> wxString" where
  "fmt_x prec n = replicate (prec - length (hex_nat n)) (wxChr CHR ''0'') @ hex_nat n"

text \<open>
  A C \<^verbatim>\<open>int\<close> is kept as an integer; \<open>int_add\<close> is the addition of the machine
  (32 bits, two's complement), and \<open>to_unsigned\<close> the value \<^verbatim>\<open>%x\<close> prints for it.
\<close>

definition int_add :: "int \<Rightarrow> int \<Rightarrow> int" where
  "int_add a b = signed_take_bit 31 (a + b)"

definition to_unsigned :: "int \<Rightarrow> nat" where
  "to_unsigned i = nat (take_bit 32 i)"

section \<open>Layer classification\<close>

text \<open>
  \<^verbatim>\<open>LAYER_NUM\<close> is a C \<^verbatim>\<open>int\<close>. The enumerators of the layer identifiers and the
  predicate \<^verbatim>\<open>IsCopperLayer\<close> are declared in a header that is not part of
  \<^verbatim>\<open>pcbplot.cpp\<close>; they are taken as a parameter of every function that uses them.
\<close>

type_synonym LAYER_NUM = int

record layer_ids =
  F_Cu :: LAYER_NUM
  B_Cu :: LAYER_NUM
  B_Adhes :: LAYER_NUM
  F_Adhes :: LAYER_NUM
  B_Paste :: LAYER_NUM
  F_Paste :: LAYER_NUM
  B_SilkS :: LAYER_NUM
  F_SilkS :: LAYER_NUM
  B_Mask :: LAYER_NUM
  F_Mask :: LAYER_NUM
  Dwgs_User :: LAYER_NUM
  Cmts_User :: LAYER_NUM
  Eco1_User :: LAYER_NUM
  Eco2_User :: LAYER_NUM
  Edge_Cuts :: LAYER_NUM
  B_Fab :: LAYER_NUM
  F_Fab :: LAYER_NUM
  IsCopperLayer :: "LAYER_NUM \<Rightarrow> bool"

text \<open>
  Modelled from the spec: the layer enumeration and \<^verbatim>\<open>IsCopperLayer\<close> are missing from
  the sources at hand. What is known of them:
  \<^item> the seventeen enumerators are the case labels of one \<^verbatim>\<open>switch\<close>
    (in \<^verbatim>\<open>GetGerberFileFunctionAttribute\<close>), so they are pairwise distinct;
  \<^item> the data model of the specification separates the numbered copper layers from the
    named non-copper layers (adhesive, paste, silkscreen, mask, edge cuts, drawing,
    comment, ECO and fabrication layers): none of the latter is a copper layer;
  \<^item> the ordinal of a copper layer is a small number: \<^verbatim>\<open>aLayer+1\<close> does not overflow.
\<close>

definition named_layers :: "layer_ids \<Rightarrow> LAYER_NUM list" where
  "named_layers L =
     [B_Adhes L, F_Adhes L, B_Paste L, F_Paste L, B_SilkS L, F_SilkS L, B_Mask L, F_Mask L,
      Dwgs_User L, Cmts_User L, Eco1_User L, Eco2_User L, Edge_Cuts L, B_Fab L, F_Fab L]"

definition layer_ids_ok :: "layer_ids \<Rightarrow> bool" where
  "layer_ids_ok L =
     (distinct (F_Cu L # B_Cu L # named_layers L) \<and>
      (\<forall>l \<in> set (named_layers L). \<not> IsCopperLayer L l) \<and>
      (\<forall>l. IsCopperLayer L l \<longrightarrow> - (2 ^ 31) \<le> l \<and> l < 2 ^ 31 - 1))"

text \<open>
  A table that satisfies these conditions: the values of the layer enumeration of the
  application (copper layers are 0 to 31).
\<close>

definition pcb_layer_ids :: layer_ids where
  "pcb_layer_ids =
     \<lparr> F_Cu = 0, B_Cu = 31, B_Adhes = 32, F_Adhes = 33, B_Paste = 34, F_Paste = 35,
       B_SilkS = 36, F_SilkS = 37, B_Mask = 38, F_Mask = 39, Dwgs_User = 40,
       Cmts_User = 41, Eco1_User = 42, Eco2_User = 43, Edge_Cuts = 44, B_Fab = 48,
       F_Fab = 49, IsCopperLayer = (\<lambda>l. 0 \<le> l \<and> l \<le> 31) \<rparr>"

definition GetGerberProtelExtension :: "layer_ids \<Rightarrow> LAYER_NUM \<Rightarrow> wxString" where
  "GetGerberProtelExtension L aLayer =
     (if IsCopperLayer L aLayer then
        (if aLayer = F_Cu L then wxT ''gtl''
         else if aLayer = B_Cu L then wxT ''gbl''
         else wxT ''g'' @ fmt_d (int_add aLayer 1))
      else if aLayer = B_Adhes L then wxT ''gba''
      else if aLayer = F_Adhes L then wxT ''gta''
      else if aLayer = B_Paste L then wxT ''gbp''
      else if aLayer = F_Paste L then wxT ''gtp''
      else if aLayer = B_SilkS L then wxT ''gbo''
      else if aLayer = F_SilkS L then wxT ''gto''
      else if aLayer = B_Mask L then wxT ''gbs''
      else if aLayer = F_Mask L then wxT ''gts''
      else if aLayer = Edge_Cuts L then wxT ''gm1''
      else wxT ''gbr'')"

text \<open>
  The value part of the file function attribute: the \<^verbatim>\<open>switch\<close> of
  \<^verbatim>\<open>GetGerberFileFunctionAttribute\<close>, case by case in the order of the source. The only
  fact read from the board is its copper layer count.
\<close>

definition FileFunction_attrib :: "layer_ids \<Rightarrow> int \<Rightarrow> LAYER_NUM \<Rightarrow> wxString" where
  "FileFunction_attrib L copperLayerCount aLayer =
     (if aLayer = F_Adhes L then wxT ''Glue,Top''
      else if aLayer = B_Adhes L then wxT ''Glue,Bot''
      else if aLayer = F_SilkS L then wxT ''Legend,Top''
      else if aLayer = B_SilkS L then wxT ''Legend,Bot''
      else if aLayer = F_Mask L then wxT ''Soldermask,Top''
      else if aLayer = B_Mask L then wxT ''Soldermask,Bot''
      else if aLayer = F_Paste L then wxT ''Paste,Top''
      else if aLayer = B_Paste L then wxT ''Paste,Bot''
      else if aLayer = Edge_Cuts L then wxT ''Profile,NP''
      else if aLayer = Dwgs_User L then wxT ''Drawing''
      else if aLayer = Cmts_User L then wxT ''Other,Comment''
      else if aLayer = Eco1_User L then wxT ''Other,ECO1''
      else if aLayer = Eco2_User L then wxT ''Other,ECO2''
      else if aLayer = B_Fab L then wxT ''Other,Fab,Bot''
      else if aLayer = F_Fab L then wxT ''Other,Fab,Top''
      else if aLayer = B_Cu L then wxT ''Copper,L'' @ fmt_d copperLayerCount @ wxT '',Bot''
      else if aLayer = F_Cu L then wxT ''Copper,L1,Top''
      else if IsCopperLayer L aLayer then
        wxT ''Copper,L'' @ fmt_d (int_add aLayer 1) @ wxT '',Inr''
      else wxT ''Other,User'')"

definition GetGerberFileFunctionAttribute :: "layer_ids \<Rightarrow> int \<Rightarrow> LAYER_NUM \<Rightarrow> wxString" where
  "GetGerberFileFunctionAttribute L copperLayerCount aLayer =
     wxT ''%TF.FileFunction,'' @ GetChars (FileFunction_attrib L copperLayerCount aLayer)
       @ wxT ''*%''"

definition layer_polarity :: "layer_ids \<Rightarrow> LAYER_NUM \<Rightarrow> int" where
  "layer_polarity L aLayer =
     (if aLayer = F_Adhes L \<or> aLayer = B_Adhes L \<or> aLayer = F_SilkS L \<or> aLayer = B_SilkS L
         \<or> aLayer = F_Paste L \<or> aLayer = B_Paste L then 1
      else if aLayer = F_Mask L \<or> aLayer = B_Mask L then - 1
      else if IsCopperLayer L aLayer then 1
      else 0)"

definition GetGerberFilePolarityAttribute :: "layer_ids \<Rightarrow> LAYER_NUM \<Rightarrow> wxString" where
  "GetGerberFilePolarityAttribute L aLayer =
     (let polarity = layer_polarity L aLayer;
          filePolarity = [];
          filePolarity = (if polarity = 1 then wxT ''%TF.FilePolarity,Positive*%''
                          else filePolarity);
          filePolarity = (if polarity = - 1 then wxT ''%TF.FilePolarity,Negative*%''
                          else filePolarity)
      in filePolarity)"

section \<open>Header attributes\<close>

text \<open>
  \<^verbatim>\<open>makeStringCompatX1\<close> changes its argument in place and returns a reference to it: the
  caller's string is the returned one afterwards.
\<close>

definition makeStringCompatX1 :: "wxString \<Rightarrow> bool \<Rightarrow> wxString" where
  "makeStringCompatX1 aText aUseX1CompatibilityMode =
     (if aUseX1CompatibilityMode
      then wxT ''G04 #@! '' @ Replace (wxChr CHR ''%'') [] aText
      else aText)"

text \<open>
  \<^verbatim>\<open>makeProjectGUIDfromString\<close>. First the working copy of the name:
  \<^verbatim>\<open>int cnt = 16 - bname.Len()\<close> is computed on unsigned lengths and stored in an
  \<^verbatim>\<open>int\<close>, then \<open>cnt\<close> characters \<^verbatim>\<open>'X'\<close> are appended when \<open>cnt\<close> is positive.
\<close>

definition guid_bname :: "wxString \<Rightarrow> wxString" where
  "guid_bname aText =
     (let bname = aText;
          cnt = signed_take_bit 31 (16 - int (length bname))
      in if cnt > 0 then bname @ replicate (nat cnt) (wxChr CHR ''X'') else bname)"

text \<open>
  The loops \<^verbatim>\<open>for( ii = 0; ii < n; ii++ )\<close> that append the two hexadecimal digits of
  one character each; the state is \<open>(chr_idx, guid)\<close>.
\<close>

primrec hex_loop :: "nat \<Rightarrow> wxString \<Rightarrow> nat \<times> wxString \<Rightarrow> nat \<times> wxString" where
  "hex_loop 0 bname st = st"
| "hex_loop (Suc n) bname st =
     hex_loop n bname
       (case st of (chr_idx, guid) \<Rightarrow>
          (chr_idx + 1, guid @ fmt_x 2 (bname ! chr_idx AND 0xFF)))"

definition makeProjectGUIDfromString :: "wxString \<Rightarrow> wxString" where
  "makeProjectGUIDfromString aText =
     (let bname = guid_bname aText;
          (chr_idx, guid) = hex_loop 4 bname (0, []);
          guid = guid @ wxT ''-'';
          (chr_idx, guid) = hex_loop 2 bname (chr_idx, guid);
          guid = guid @ wxT ''-1'';
          cc = push_bit 4 (bname ! chr_idx) AND 0xFF0;
          chr_idx = chr_idx + 1;
          cc = cc + (drop_bit 4 (bname ! chr_idx) AND 0x0F);
          guid = guid @ fmt_x 3 cc;
          guid = guid @ wxT ''-9'';
          cc = push_bit 8 (bname ! chr_idx AND 0x0F);
          chr_idx = chr_idx + 1;
          cc = cc + (bname ! chr_idx AND 0xFF);
          chr_idx = chr_idx + 1;
          guid = guid @ fmt_x 3 cc;
          guid = guid @ wxT ''-'';
          (chr_idx, guid) = hex_loop 6 bname (chr_idx, guid)
      in guid)"

subsection \<open>File names, board and plotter\<close>

text \<open>
  \<^verbatim>\<open>wxFileName\<close> belongs to the GUI library. What the plot code uses of it is kept: a
  path, a name, an extension and the flag that an extension is present; the full name is
  the name followed by a dot and the extension, the full path the path, a separator and
  the full name (Unix path format).
\<close>

record wxFileName =
  m_path :: wxString
  m_name :: wxString
  m_ext :: wxString
  m_hasExt :: bool

definition SetPath :: "wxString \<Rightarrow> wxFileName \<Rightarrow> wxFileName" where
  "SetPath p fn = fn\<lparr>m_path := p\<rparr>"

definition SetExt :: "wxString \<Rightarrow> wxFileName \<Rightarrow> wxFileName" where
  "SetExt e fn = fn\<lparr>m_ext := e, m_hasExt := (e \<noteq> [])\<rparr>"

definition SetName :: "wxString \<Rightarrow> wxFileName \<Rightarrow> wxFileName" where
  "SetName n fn = fn\<lparr>m_name := n\<rparr>"

definition GetName :: "wxFileName \<Rightarrow> wxString" where
  "GetName fn = m_name fn"

definition GetPath :: "wxFileName \<Rightarrow> wxString" where
  "GetPath fn = m_path fn"

definition GetFullName :: "wxFileName \<Rightarrow> wxString" where
  "GetFullName fn = m_name fn @ (if m_hasExt fn then wxT ''.'' @ m_ext fn else [])"

definition GetFullPath :: "wxFileName \<Rightarrow> wxString" where
  "GetFullPath fn =
     (if m_path fn = [] then []
      else if last (m_path fn) = wxChr CHR ''/'' then m_path fn
      else m_path fn @ wxT ''/'') @ GetFullName fn"

definition DirName :: "wxString \<Rightarrow> wxFileName" where
  "DirName dir = \<lparr>m_path = dir, m_name = [], m_ext = [], m_hasExt = False\<rparr>"

text \<open>
  \<^verbatim>\<open>wxFileName::GetForbiddenChars(wxPATH_DOS)\<close> of the GUI library: the characters
  \<^verbatim>\<open>* ? \ / : " < > |\<close>.
\<close>

definition GetForbiddenChars_DOS :: wxString where
  "GetForbiddenChars_DOS =
     map wxChr [CHR ''*'', CHR ''?'', CHR 0x5C, CHR ''/'', CHR '':'', CHR 0x22,
                CHR ''<'', CHR ''>'', CHR ''|'']"

record wxPoint =
  pt_x :: int
  pt_y :: int

type_synonym PlotFormat = int

record PCB_PLOT_PARAMS =
  GetFormat :: PlotFormat
  GetOutputDirectory :: wxString
  GetUseGerberProtelExtensions :: bool
  GetUseAuxOrigin :: bool

text \<open>
  The facts of a board that the plot code reads. The file name is kept in the form
  \<^verbatim>\<open>wxFileName\<close> splits it into.
\<close>

record BOARD =
  GetFileName :: wxFileName
  GetCopperLayerCount :: int
  GetRevision :: wxString
  GetAuxOrigin :: wxPoint
  GetPlotOptions :: PCB_PLOT_PARAMS

text \<open>A plotter: the lines added to its header so far, and the file it writes.\<close>

record PLOTTER =
  m_headerExtraStr :: "wxString list"
  m_filename :: wxString

definition AddLineToHeader :: "wxString \<Rightarrow> PLOTTER \<Rightarrow> PLOTTER" where
  "AddLineToHeader aExtraString p = p\<lparr>m_headerExtraStr := m_headerExtraStr p @ [aExtraString]\<rparr>"

text \<open>\<^verbatim>\<open>msg.insert( 3, ":", 1 )\<close>: the string \<open>ins\<close> is put in front of position \<open>n\<close>.\<close>

definition insert_at :: "nat \<Rightarrow> wxString \<Rightarrow> wxString \<Rightarrow> wxString" where
  "insert_at n ins s = take n s @ ins @ drop n s"

text \<open>
  \<^verbatim>\<open>AddGerberX2Header\<close>. The build version, and the two texts the current date is
  formatted to (\<^verbatim>\<open>date.FormatISOCombined()\<close> and \<^verbatim>\<open>date.Format("%z")\<close>), come from
  outside and are arguments. The variable \<open>text\<close> is the one string of the source that
  every line is printed into and that \<open>makeStringCompatX1\<close> changes in place.

  In the source the statement that inserts the colon ends with a comma, not a semicolon:
  \<^verbatim>\<open>if( msg.Len() > 3 ) msg.insert( 3, ":", 1 ), text.Printf( ... );\<close>
  so the \<^verbatim>\<open>Printf\<close> of the creation date belongs to the \<^verbatim>\<open>if\<close>.
\<close>

definition AddGerberX2Header ::
  "wxString \<Rightarrow> wxString \<Rightarrow> wxString \<Rightarrow> PLOTTER \<Rightarrow> BOARD \<Rightarrow> bool \<Rightarrow> PLOTTER" where
  "AddGerberX2Header buildVersion dateISOCombined dateZ aPlotter aBoard aUseX1CompatibilityMode =
     (let text = wxT ''%TF.GenerationSoftware,KiCad,Pcbnew,'' @ GetChars buildVersion @ wxT ''*%'';
          text = makeStringCompatX1 text aUseX1CompatibilityMode;
          aPlotter = AddLineToHeader text aPlotter;
          msg = dateZ;
          (msg, text) =
            (if length msg > 3 then
               (let msg = insert_at 3 (wxT '':'') msg
                in (msg, wxT ''%TF.CreationDate,'' @ GetChars dateISOCombined @ GetChars msg
                           @ wxT ''*%''))
             else (msg, text));
          text = makeStringCompatX1 text aUseX1CompatibilityMode;
          aPlotter = AddLineToHeader text aPlotter;
          fn = GetFileName aBoard;
          msg = GetFullName fn;
          guid = makeProjectGUIDfromString msg;
          msg = GetName fn;
          msg = Replace (wxChr CHR '','') (wxT ''_'') msg;
          rev = GetRevision aBoard;
          rev = Replace (wxChr CHR '','') (wxT ''_'') rev;
          rev = (if rev = [] then wxT ''rev?'' else rev);
          text = wxT ''%TF.ProjectId,'' @ GetChars (ToAscii msg) @ wxT '','' @ GetChars guid
                   @ wxT '','' @ GetChars (ToAscii rev) @ wxT ''*%'';
          text = makeStringCompatX1 text aUseX1CompatibilityMode;
          aPlotter = AddLineToHeader text aPlotter;
          registration_id = wxT ''Original'';
          auxOrigin = GetAuxOrigin aBoard;
          registration_id =
            (if GetUseAuxOrigin (GetPlotOptions aBoard) \<and> pt_x auxOrigin \<noteq> 0
                \<and> pt_y auxOrigin \<noteq> 0
             then wxT ''PX'' @ fmt_x 1 (to_unsigned (pt_x auxOrigin))
                    @ wxT ''PY'' @ fmt_x 1 (to_unsigned (pt_y auxOrigin))
             else registration_id);
          text = wxT ''%TF.SameCoordinates,'' @ GetChars registration_id @ wxT ''*%'';
          text = makeStringCompatX1 text aUseX1CompatibilityMode;
          aPlotter = AddLineToHeader text aPlotter
      in aPlotter)"

section \<open>Plot file names\<close>

definition BuildPlotFileName ::
  "wxFileName \<Rightarrow> wxString \<Rightarrow> wxString \<Rightarrow> wxString \<Rightarrow> wxFileName" where
  "BuildPlotFileName aFilename aOutputDir aSuffix aExtension =
     (let aFilename = SetPath aOutputDir aFilename;
          aFilename = SetExt aExtension aFilename;
          suffix = aSuffix;
          suffix = Trim True suffix;
          suffix = Trim False suffix;
          badchars = GetForbiddenChars_DOS;
          badchars = badchars @ [wxChr CHR ''%''];
          suffix = fold (\<lambda>bad s. Replace bad (wxT ''_'') s) badchars suffix
      in if suffix \<noteq> [] then SetName (GetName aFilename @ wxT ''-'' @ suffix) aFilename
         else aFilename)"

section \<open>Plot session controller\<close>

text \<open>
  The controller owns at most one plotter (\<open>m_plotter\<close>, \<open>None\<close> for the null pointer).
  Its collaborators are not part of \<^verbatim>\<open>pcbplot.cpp\<close> and are taken as parameters:
  \<^verbatim>\<open>EnsureFileDirectoryExists\<close> (which answers whether the directory is there and may
  rewrite the directory it is given), \<^verbatim>\<open>StartPlotBoard\<close> (which answers a plotter or the
  null pointer), \<^verbatim>\<open>GetDefaultPlotExtension\<close>, the enumerator \<^verbatim>\<open>PLOT_FORMAT_GERBER\<close> and
  the layer identifiers. What they answer may depend on everything done before, so they
  read the trace of the effects so far; the controller's functions take the controller and
  the trace, and return both. A failure of a collaborator is the value it returns
  (\<open>False\<close>, \<open>None\<close>). The \<^verbatim>\<open>LOCALE_IO\<close> object on the stack, which pins the numeric
  locale for the duration of a call, is left out.
\<close>

datatype plot_event =
  Ev_EndPlot PLOTTER
  | Ev_EnsureFileDirectoryExists wxFileName wxString
  | Ev_StartPlotBoard LAYER_NUM wxString wxString

record plot_env =
  EnsureFileDirectoryExists :: "plot_event list \<Rightarrow> wxFileName \<Rightarrow> wxString \<Rightarrow> bool \<times> wxFileName"
  StartPlotBoard ::
    "plot_event list \<Rightarrow> BOARD \<Rightarrow> PCB_PLOT_PARAMS \<Rightarrow> LAYER_NUM \<Rightarrow> wxString \<Rightarrow> wxString
       \<Rightarrow> PLOTTER option"
  GetDefaultPlotExtension :: "PlotFormat \<Rightarrow> wxString"
  PLOT_FORMAT_GERBER :: PlotFormat
  env_layers :: layer_ids

record PLOT_CONTROLLER =
  m_plotter :: "PLOTTER option"
  m_board :: BOARD
  m_plotLayer :: LAYER_NUM
  m_plotFile :: wxFileName
  m_plotOptions :: PCB_PLOT_PARAMS

definition ClosePlot ::
  "PLOT_CONTROLLER \<times> plot_event list \<Rightarrow> PLOT_CONTROLLER \<times> plot_event list" where
  "ClosePlot st =
     (case st of (c, tr) \<Rightarrow>
        (case m_plotter c of
           Some p \<Rightarrow> (c\<lparr>m_plotter := None\<rparr>, tr @ [Ev_EndPlot p])
         | None \<Rightarrow> (c, tr)))"

definition OpenPlotfile ::
  "plot_env \<Rightarrow> wxString \<Rightarrow> PlotFormat \<Rightarrow> wxString \<Rightarrow> PLOT_CONTROLLER \<times> plot_event list
     \<Rightarrow> bool \<times> PLOT_CONTROLLER \<times> plot_event list" where
  "OpenPlotfile E aSuffix aFormat aSheetDesc st =
     (case st of (c, tr) \<Rightarrow>
        (let c = c\<lparr>m_plotOptions := (m_plotOptions c)\<lparr>GetFormat := aFormat\<rparr>\<rparr>;
             (c, tr) = ClosePlot (c, tr);
             outputDirName = GetOutputDirectory (m_plotOptions c);
             outputDir = DirName outputDirName;
             boardFilename = GetFileName (m_board c);
             (ok, outputDir) =
               EnsureFileDirectoryExists E tr outputDir (GetFullPath boardFilename);
             tr = tr @ [Ev_EnsureFileDirectoryExists (DirName outputDirName)
                          (GetFullPath boardFilename)];
             (c, tr) =
               (if ok then
                  (let plotFile = boardFilename;
                       plotFile = SetPath (GetPath outputDir) plotFile;
                       fileExt = GetDefaultPlotExtension E aFormat;
                       fileExt =
                         (if GetFormat (m_plotOptions c) = PLOT_FORMAT_GERBER E
                             \<and> GetUseGerberProtelExtensions (m_plotOptions c)
                          then GetGerberProtelExtension (env_layers E) (m_plotLayer c)
                          else fileExt);
                       plotFile = BuildPlotFileName plotFile (GetPath outputDir) aSuffix fileExt;
                       plotter = StartPlotBoard E tr (m_board c) (m_plotOptions c)
                                   (m_plotLayer c) (GetFullPath plotFile) aSheetDesc
                   in (c\<lparr>m_plotter := plotter, m_plotFile := plotFile\<rparr>,
                       tr @ [Ev_StartPlotBoard (m_plotLayer c) (GetFullPath plotFile)
                               aSheetDesc]))
                else (c, tr))
         in (m_plotter c \<noteq> None, c, tr)))"

section \<open>Notions of the specification\<close>

text \<open>
  The pattern
  \<^verbatim>\<open>^[0-9a-f]{8}-[0-9a-f]{4}-1[0-9a-f]{3}-9[0-9a-f]{3}-[0-9a-f]{12}$\<close>
  of the specification, position by position.
\<close>

definition is_hex_digit :: "wxUniChar \<Rightarrow> bool" where
  "is_hex_digit c = (c \<in> set (wxT ''0123456789abcdef''))"

definition guid_pattern :: "wxString \<Rightarrow> bool" where
  "guid_pattern s =
     (length s = 36 \<and>
      list_all is_hex_digit (take 8 s) \<and> s ! 8 = wxChr CHR ''-'' \<and>
      list_all is_hex_digit (take 4 (drop 9 s)) \<and> s ! 13 = wxChr CHR ''-'' \<and>
      s ! 14 = wxChr CHR ''1'' \<and> list_all is_hex_digit (take 3 (drop 15 s)) \<and>
      s ! 18 = wxChr CHR ''-'' \<and>
      s ! 19 = wxChr CHR ''9'' \<and> list_all is_hex_digit (take 3 (drop 20 s)) \<and>
      s ! 23 = wxChr CHR ''-'' \<and>
      list_all is_hex_digit (drop 24 s))"

text \<open>
  The padded name of the specification: a name shorter than the 16 characters of the
  working buffer is filled up on the right with the filler \<^verbatim>\<open>'X'\<close>.
\<close>

definition pad16 :: "wxString \<Rightarrow> wxString" where
  "pad16 name = name @ replicate (16 - length name) (wxChr CHR ''X'')"

subsection \<open>Sample inputs\<close>

definition board_name :: wxFileName where
  "board_name = \<lparr>m_path = [], m_name = wxT ''board'', m_ext = [], m_hasExt = False\<rparr>"

definition sample_board :: BOARD where
  "sample_board =
     \<lparr> GetFileName = \<lparr>m_path = wxT ''/home/user/proj'', m_name = wxT ''board'',
                       m_ext = wxT ''kicad_pcb'', m_hasExt = True\<rparr>,
       GetCopperLayerCount = 4,
       GetRevision = [],
       GetAuxOrigin = \<lparr>pt_x = 0, pt_y = 0\<rparr>,
       GetPlotOptions = \<lparr>GetFormat = 1, GetOutputDirectory = wxT ''/out'',
                          GetUseGerberProtelExtensions = False, GetUseAuxOrigin = False\<rparr> \<rparr>"

definition sample_board_aux :: BOARD where
  "sample_board_aux =
     sample_board\<lparr> GetAuxOrigin := \<lparr>pt_x = 255, pt_y = - 1\<rparr>,
                   GetPlotOptions := (GetPlotOptions sample_board)\<lparr>GetUseAuxOrigin := True\<rparr> \<rparr>"

definition new_plotter :: PLOTTER where
  "new_plotter = \<lparr>m_headerExtraStr = [], m_filename = []\<rparr>"

definition sample_controller :: PLOT_CONTROLLER where
  "sample_controller =
     \<lparr> m_plotter = Some new_plotter, m_board = sample_board, m_plotLayer = 0,
       m_plotFile = board_name, m_plotOptions = GetPlotOptions sample_board \<rparr>"

text \<open>
  Two sets of collaborators: with the first the output directory cannot be made; with
  the second it can, and a plotter for the requested file is built.
\<close>

definition env_no_directory :: plot_env where
  "env_no_directory =
     \<lparr> EnsureFileDirectoryExists = (\<lambda>tr dir base. (False, dir)),
       StartPlotBoard = (\<lambda>tr b opts layer file desc. Some (new_plotter\<lparr>m_filename := file\<rparr>)),
       GetDefaultPlotExtension = (\<lambda>f. wxT ''gbr''),
       PLOT_FORMAT_GERBER = 1,
       env_layers = pcb_layer_ids \<rparr>"

definition env_working :: plot_env where
  "env_working =
     \<lparr> EnsureFileDirectoryExists = (\<lambda>tr dir base. (True, dir)),
       StartPlotBoard = (\<lambda>tr b opts layer file desc. Some (new_plotter\<lparr>m_filename := file\<rparr>)),
       GetDefaultPlotExtension = (\<lambda>f. wxT ''gbr''),
       PLOT_FORMAT_GERBER = 1,
       env_layers = pcb_layer_ids \<rparr>"

section \<open>Properties\<close>

subsection \<open>Formatting\<close>

lemma int_add_1: "- (2 ^ 31) \<le> a \<Longrightarrow> a < 2 ^ 31 - 1 \<Longrightarrow> int_add a 1 = a + 1"
  unfolding int_add_def by (rule signed_take_bit_int_eq_self) auto

lemma copper_int_add_1: "layer_ids_ok L \<Longrightarrow> IsCopperLayer L l \<Longrightarrow> int_add l 1 = l + 1"
  by (rule int_add_1) (auto simp: layer_ids_ok_def)

lemma dec_digit_no_nul: "k < 10 \<Longrightarrow> wxT ''0123456789'' ! k \<noteq> 0"
proof -
  assume "k < 10"
  then have "k \<in> {0, 1, 2, 3, 4, 5, 6, 7, 8, 9}" by auto
  then show ?thesis by (auto simp: wxT_def)
qed

lemma dec_nat_no_nul: "0 \<notin> set (dec_nat n)"
proof (induction n rule: dec_nat.induct)
  case (1 n)
  show ?case
  proof (cases "n < 10")
    case True
    then show ?thesis using dec_digit_no_nul [of n] by (simp add: dec_nat.simps)
  next
    case False
    have "n mod 10 < 10" by simp
    then have "wxT ''0123456789'' ! (n mod 10) \<noteq> 0" by (rule dec_digit_no_nul)
    with False 1 show ?thesis by (subst dec_nat.simps) simp
  qed
qed

lemma fmt_d_no_nul: "0 \<notin> set (fmt_d i)"
  by (simp add: fmt_d_def dec_nat_no_nul wxT_def)

lemma GetChars_id: "0 \<notin> set s \<Longrightarrow> GetChars s = s"
  unfolding GetChars_def by (induction s) auto

lemma hex_digit_ok: "k < 16 \<Longrightarrow> is_hex_digit (wxT ''0123456789abcdef'' ! k)"
  unfolding is_hex_digit_def by (rule nth_mem) (simp add: wxT_def)

lemma hex_nat_digits: "list_all is_hex_digit (hex_nat n)"
proof (induction n rule: hex_nat.induct)
  case (1 n)
  show ?case
  proof (cases "n < 16")
    case True
    then show ?thesis by (simp add: hex_digit_ok hex_nat.simps)
  next
    case False
    have "is_hex_digit (wxT ''0123456789abcdef'' ! (n mod 16))"
      by (rule hex_digit_ok) simp
    with False 1 show ?thesis by (subst hex_nat.simps) simp
  qed
qed

lemma length_hex_nat: "n < 16 ^ k \<Longrightarrow> 0 < k \<Longrightarrow> length (hex_nat n) \<le> k"
proof (induction n arbitrary: k rule: hex_nat.induct)
  case (1 n)
  show ?case
  proof (cases "n < 16")
    case True
    with 1(3) show ?thesis by (simp add: hex_nat.simps)
  next
    case False
    from 1(3) obtain j where k: "k = Suc j" by (cases k) auto
    with False 1(2) have j: "0 < j" by (cases j) auto
    from 1(2) k have "n div 16 < 16 ^ j" by (simp add: less_mult_imp_div_less mult.commute)
    with 1(1) [OF False _ j] have "length (hex_nat (n div 16)) \<le> j" by simp
    with False k show ?thesis by (subst hex_nat.simps) simp
  qed
qed

lemma length_fmt_x: "n < 16 ^ k \<Longrightarrow> 0 < k \<Longrightarrow> length (fmt_x k n) = k"
  using length_hex_nat [of n k] by (simp add: fmt_x_def)

lemma fmt_x_digits: "list_all is_hex_digit (fmt_x k n)"
proof -
  have "is_hex_digit (wxChr CHR ''0'')" by (simp add: is_hex_digit_def wxT_def wxChr_def)
  then have "list_all is_hex_digit (replicate (k - length (hex_nat n)) (wxChr CHR ''0''))"
    by (simp add: list_all_iff)
  with hex_nat_digits [of n] show ?thesis
    unfolding fmt_x_def list_all_append by (rule conjI [rotated])
qed

lemma fmt_x_no_nul: "0 \<notin> set (fmt_x k n)"
  using fmt_x_digits [of k n] by (auto simp: list_all_iff is_hex_digit_def wxT_def)

subsection \<open>Layer classification\<close>

text \<open>
  C5. For a copper layer, \<open>GetGerberProtelExtension\<close> (the legacy extension) is
  \<^verbatim>\<open>gtl\<close> for the front copper layer, \<^verbatim>\<open>gbl\<close> for the back copper layer and
  \<^verbatim>\<open>g<N+1>\<close> for every other copper layer \<open>N\<close>, the number printed in decimal.
\<close>

theorem GetGerberProtelExtension_copper:
  assumes "layer_ids_ok L" and "IsCopperLayer L aLayer"
  shows "GetGerberProtelExtension L aLayer =
     (if aLayer = F_Cu L then wxT ''gtl''
      else if aLayer = B_Cu L then wxT ''gbl''
      else wxT ''g'' @ fmt_d (aLayer + 1))"
  using assms by (simp add: GetGerberProtelExtension_def copper_int_add_1)

text \<open>
  The statement at the layer table of the application: front copper (0), back copper
  (31) and the inner layer 5, whose extension is \<^verbatim>\<open>g6\<close>.
\<close>

theorem GetGerberProtelExtension_copper_witness:
  "layer_ids_ok pcb_layer_ids \<and> IsCopperLayer pcb_layer_ids 0 \<and>
   IsCopperLayer pcb_layer_ids 31 \<and> IsCopperLayer pcb_layer_ids 5 \<and>
   GetGerberProtelExtension pcb_layer_ids 0 = wxT ''gtl'' \<and>
   GetGerberProtelExtension pcb_layer_ids 31 = wxT ''gbl'' \<and>
   GetGerberProtelExtension pcb_layer_ids 5 = wxT ''g6''"
proof -
  have ok: "layer_ids_ok pcb_layer_ids"
    by (simp add: layer_ids_ok_def pcb_layer_ids_def named_layers_def)
  have c: "IsCopperLayer pcb_layer_ids 0" "IsCopperLayer pcb_layer_ids 31"
    "IsCopperLayer pcb_layer_ids 5"
    by (simp_all add: pcb_layer_ids_def)
  show ?thesis
    using ok c GetGerberProtelExtension_copper [OF ok c(1)]
      GetGerberProtelExtension_copper [OF ok c(2)] GetGerberProtelExtension_copper [OF ok c(3)]
    by (simp add: pcb_layer_ids_def fmt_d_def dec_nat.simps wxT_def)
qed

lemma FileFunction_attrib_no_nul: "0 \<notin> set (FileFunction_attrib L n aLayer)"
  by (simp add: FileFunction_attrib_def fmt_d_no_nul wxT_def)

text \<open>
  C3. \<open>GetGerberFileFunctionAttribute\<close> returns \<^verbatim>\<open>%TF.FileFunction,<value>*%\<close> for every
  layer and copper layer count, where the value is \<^verbatim>\<open>Copper,L1,Top\<close> for front copper,
  \<^verbatim>\<open>Copper,L<count>,Bot\<close> for back copper, \<^verbatim>\<open>Copper,L<N+1>,Inr\<close> for any other copper
  layer \<open>N\<close>, \<^verbatim>\<open>Profile,NP\<close> for the edge cuts, the fixed label of each other named layer,
  and \<^verbatim>\<open>Other,User\<close> for every layer that is none of these. The function is total.
\<close>

theorem GetGerberFileFunctionAttribute_value:
  assumes "layer_ids_ok L"
  shows "GetGerberFileFunctionAttribute L copperLayerCount aLayer =
     wxT ''%TF.FileFunction,'' @
     (if aLayer = F_Cu L then wxT ''Copper,L1,Top''
      else if aLayer = B_Cu L then wxT ''Copper,L'' @ fmt_d copperLayerCount @ wxT '',Bot''
      else if IsCopperLayer L aLayer then wxT ''Copper,L'' @ fmt_d (aLayer + 1) @ wxT '',Inr''
      else if aLayer = Edge_Cuts L then wxT ''Profile,NP''
      else if aLayer = F_Adhes L then wxT ''Glue,Top''
      else if aLayer = B_Adhes L then wxT ''Glue,Bot''
      else if aLayer = F_SilkS L then wxT ''Legend,Top''
      else if aLayer = B_SilkS L then wxT ''Legend,Bot''
      else if aLayer = F_Mask L then wxT ''Soldermask,Top''
      else if aLayer = B_Mask L then wxT ''Soldermask,Bot''
      else if aLayer = F_Paste L then wxT ''Paste,Top''
      else if aLayer = B_Paste L then wxT ''Paste,Bot''
      else if aLayer = Dwgs_User L then wxT ''Drawing''
      else if aLayer = Cmts_User L then wxT ''Other,Comment''
      else if aLayer = Eco1_User L then wxT ''Other,ECO1''
      else if aLayer = Eco2_User L then wxT ''Other,ECO2''
      else if aLayer = B_Fab L then wxT ''Other,Fab,Bot''
      else if aLayer = F_Fab L then wxT ''Other,Fab,Top''
      else wxT ''Other,User'') @ wxT ''*%''"
proof -
  have a: "FileFunction_attrib L copperLayerCount aLayer =
     (if aLayer = F_Cu L then wxT ''Copper,L1,Top''
      else if aLayer = B_Cu L then wxT ''Copper,L'' @ fmt_d copperLayerCount @ wxT '',Bot''
      else if IsCopperLayer L aLayer then wxT ''Copper,L'' @ fmt_d (aLayer + 1) @ wxT '',Inr''
      else if aLayer = Edge_Cuts L then wxT ''Profile,NP''
      else if aLayer = F_Adhes L then wxT ''Glue,Top''
      else if aLayer = B_Adhes L then wxT ''Glue,Bot''
      else if aLayer = F_SilkS L then wxT ''Legend,Top''
      else if aLayer = B_SilkS L then wxT ''Legend,Bot''
      else if aLayer = F_Mask L then wxT ''Soldermask,Top''
      else if aLayer = B_Mask L then wxT ''Soldermask,Bot''
      else if aLayer = F_Paste L then wxT ''Paste,Top''
      else if aLayer = B_Paste L then wxT ''Paste,Bot''
      else if aLayer = Dwgs_User L then wxT ''Drawing''
      else if aLayer = Cmts_User L then wxT ''Other,Comment''
      else if aLayer = Eco1_User L then wxT ''Other,ECO1''
      else if aLayer = Eco2_User L then wxT ''Other,ECO2''
      else if aLayer = B_Fab L then wxT ''Other,Fab,Bot''
      else if aLayer = F_Fab L then wxT ''Other,Fab,Top''
      else wxT ''Other,User'')"
  proof (cases "IsCopperLayer L aLayer")
    case True
    with assms have "aLayer \<notin> set (named_layers L)" by (auto simp: layer_ids_ok_def)
    moreover from assms have "F_Cu L \<noteq> B_Cu L" by (simp add: layer_ids_ok_def)
    ultimately show ?thesis using True assms
      by (simp add: FileFunction_attrib_def named_layers_def copper_int_add_1)
  next
    case False
    from assms have "distinct (F_Cu L # B_Cu L # named_layers L)"
      by (simp add: layer_ids_ok_def)
    then show ?thesis using False
      by (simp add: FileFunction_attrib_def named_layers_def)
  qed
  have g: "GetChars (FileFunction_attrib L copperLayerCount aLayer) =
      FileFunction_attrib L copperLayerCount aLayer"
    by (rule GetChars_id) (rule FileFunction_attrib_no_nul)
  have "GetGerberFileFunctionAttribute L copperLayerCount aLayer =
      wxT ''%TF.FileFunction,'' @ FileFunction_attrib L copperLayerCount aLayer @ wxT ''*%''"
    by (simp only: GetGerberFileFunctionAttribute_def g)
  then show ?thesis by (simp only: a)
qed

text \<open>
  The statement at the layer table of the application, for a board of four copper
  layers: front copper, back copper, the inner layer 2, the edge cuts (44), the front
  silkscreen (37) and the margin layer (45), which the function does not know.
\<close>

theorem GetGerberFileFunctionAttribute_value_witness:
  "layer_ids_ok pcb_layer_ids \<and>
   GetGerberFileFunctionAttribute pcb_layer_ids 4 0 = wxT ''%TF.FileFunction,Copper,L1,Top*%'' \<and>
   GetGerberFileFunctionAttribute pcb_layer_ids 4 31 = wxT ''%TF.FileFunction,Copper,L4,Bot*%'' \<and>
   GetGerberFileFunctionAttribute pcb_layer_ids 4 2 = wxT ''%TF.FileFunction,Copper,L3,Inr*%'' \<and>
   GetGerberFileFunctionAttribute pcb_layer_ids 4 44 = wxT ''%TF.FileFunction,Profile,NP*%'' \<and>
   GetGerberFileFunctionAttribute pcb_layer_ids 4 37 = wxT ''%TF.FileFunction,Legend,Top*%'' \<and>
   GetGerberFileFunctionAttribute pcb_layer_ids 4 45 = wxT ''%TF.FileFunction,Other,User*%''"
proof -
  have ok: "layer_ids_ok pcb_layer_ids"
    by (simp add: layer_ids_ok_def pcb_layer_ids_def named_layers_def)
  show ?thesis
    using ok GetGerberFileFunctionAttribute_value [OF ok, of 4 0]
      GetGerberFileFunctionAttribute_value [OF ok, of 4 31]
      GetGerberFileFunctionAttribute_value [OF ok, of 4 2]
      GetGerberFileFunctionAttribute_value [OF ok, of 4 44]
      GetGerberFileFunctionAttribute_value [OF ok, of 4 37]
      GetGerberFileFunctionAttribute_value [OF ok, of 4 45]
    by (simp add: pcb_layer_ids_def fmt_d_def dec_nat.simps wxT_def)
qed

text \<open>
  C4. \<open>GetGerberFilePolarityAttribute\<close> returns \<^verbatim>\<open>%TF.FilePolarity,Positive*%\<close> for the
  adhesive, silkscreen and paste layers and for every copper layer,
  \<^verbatim>\<open>%TF.FilePolarity,Negative*%\<close> for the mask layers, and the empty string otherwise; the
  result is empty exactly for the layers that are none of adhesive, silkscreen, paste,
  mask or copper.
\<close>

theorem GetGerberFilePolarityAttribute_value:
  assumes "layer_ids_ok L"
  shows "GetGerberFilePolarityAttribute L aLayer =
     (if aLayer = F_Adhes L \<or> aLayer = B_Adhes L \<or> aLayer = F_SilkS L \<or> aLayer = B_SilkS L
         \<or> aLayer = F_Paste L \<or> aLayer = B_Paste L \<or> IsCopperLayer L aLayer
      then wxT ''%TF.FilePolarity,Positive*%''
      else if aLayer = F_Mask L \<or> aLayer = B_Mask L then wxT ''%TF.FilePolarity,Negative*%''
      else [])
   \<and> (GetGerberFilePolarityAttribute L aLayer = [] \<longleftrightarrow>
       \<not> (aLayer = F_Adhes L \<or> aLayer = B_Adhes L \<or> aLayer = F_SilkS L \<or> aLayer = B_SilkS L
          \<or> aLayer = F_Paste L \<or> aLayer = B_Paste L \<or> aLayer = F_Mask L \<or> aLayer = B_Mask L
          \<or> IsCopperLayer L aLayer))"
proof -
  from assms have m: "\<not> IsCopperLayer L (F_Mask L)" "\<not> IsCopperLayer L (B_Mask L)"
    by (simp_all add: layer_ids_ok_def named_layers_def)
  have ne: "wxT ''%TF.FilePolarity,Positive*%'' \<noteq> []"
    "wxT ''%TF.FilePolarity,Negative*%'' \<noteq> []"
    by (simp_all add: wxT_def)
  show ?thesis using m ne
    by (auto simp: GetGerberFilePolarityAttribute_def layer_polarity_def Let_def)
qed

text \<open>
  The statement at the layer table of the application: front paste (35), inner copper 7,
  back mask (38) and the edge cuts (44).
\<close>

theorem GetGerberFilePolarityAttribute_value_witness:
  "layer_ids_ok pcb_layer_ids \<and>
   GetGerberFilePolarityAttribute pcb_layer_ids 35 = wxT ''%TF.FilePolarity,Positive*%'' \<and>
   GetGerberFilePolarityAttribute pcb_layer_ids 7 = wxT ''%TF.FilePolarity,Positive*%'' \<and>
   GetGerberFilePolarityAttribute pcb_layer_ids 38 = wxT ''%TF.FilePolarity,Negative*%'' \<and>
   GetGerberFilePolarityAttribute pcb_layer_ids 44 = []"
proof -
  have ok: "layer_ids_ok pcb_layer_ids"
    by (simp add: layer_ids_ok_def pcb_layer_ids_def named_layers_def)
  show ?thesis
    using ok GetGerberFilePolarityAttribute_value [OF ok, of 35]
      GetGerberFilePolarityAttribute_value [OF ok, of 7]
      GetGerberFilePolarityAttribute_value [OF ok, of 38]
      GetGerberFilePolarityAttribute_value [OF ok, of 44]
    by (simp add: pcb_layer_ids_def)
qed

subsection \<open>Compatibility transform\<close>

text \<open>
  C7. With the compatibility flag off, \<open>makeStringCompatX1\<close> (the compatibility
  transform) returns every line as it is.
\<close>

theorem makeStringCompatX1_false_identity:
  "makeStringCompatX1 aText False = aText"
  by (simp add: makeStringCompatX1_def)

subsection \<open>Project GUID\<close>

lemma and_FF: "(c::nat) AND 0xFF = take_bit 8 c"
proof -
  have "(0xFF::nat) = mask 8" by (simp add: mask_eq_exp_minus_1)
  then show ?thesis by (simp only: take_bit_eq_mask)
qed

lemma and_0F: "(c::nat) AND 0x0F = take_bit 4 c"
proof -
  have "(0x0F::nat) = mask 4" by (simp add: mask_eq_exp_minus_1)
  then show ?thesis by (simp only: take_bit_eq_mask)
qed

lemma and_FF0: "push_bit 4 (c::nat) AND 0xFF0 = 16 * take_bit 8 c"
proof -
  have "(0xFF0::nat) = push_bit 4 (mask 8)"
    by (simp add: mask_eq_exp_minus_1 push_bit_eq_mult)
  then have "push_bit 4 c AND 0xFF0 = push_bit 4 (c AND mask 8)"
    by (simp only: push_bit_and)
  then show ?thesis by (simp add: take_bit_eq_mask push_bit_eq_mult)
qed

lemma byte_lt: "(c::nat) AND 0xFF < 16 ^ 2"
  using take_bit_nat_less_exp [of 8 c] by (simp add: and_FF)

lemma version_field_lt:
  "(push_bit 4 (c::nat) AND 0xFF0) + (drop_bit 4 (d::nat) AND 0x0F) < 16 ^ 3"
  using take_bit_nat_less_exp [of 8 c] take_bit_nat_less_exp [of 4 "drop_bit 4 d"]
  by (simp add: and_FF0 and_0F)

lemma variant_field_lt: "push_bit 8 ((c::nat) AND 0x0F) + (d AND 0xFF) < 16 ^ 3"
  using take_bit_nat_less_exp [of 4 c] take_bit_nat_less_exp [of 8 d]
  by (simp add: and_FF and_0F push_bit_eq_mult)

text \<open>
  The loops unrolled: the result as a function of the characters 0 to 14 of the working
  copy of the name.
\<close>

lemma guid_formula:
  "makeProjectGUIDfromString aText =
     (let b = guid_bname aText in
      fmt_x 2 (b ! 0 AND 0xFF) @ fmt_x 2 (b ! 1 AND 0xFF) @ fmt_x 2 (b ! 2 AND 0xFF)
        @ fmt_x 2 (b ! 3 AND 0xFF) @ wxT ''-''
        @ fmt_x 2 (b ! 4 AND 0xFF) @ fmt_x 2 (b ! 5 AND 0xFF) @ wxT ''-1''
        @ fmt_x 3 ((push_bit 4 (b ! 6) AND 0xFF0) + (drop_bit 4 (b ! 7) AND 0x0F)) @ wxT ''-9''
        @ fmt_x 3 (push_bit 8 (b ! 7 AND 0x0F) + (b ! 8 AND 0xFF)) @ wxT ''-''
        @ fmt_x 2 (b ! 9 AND 0xFF) @ fmt_x 2 (b ! 10 AND 0xFF) @ fmt_x 2 (b ! 11 AND 0xFF)
        @ fmt_x 2 (b ! 12 AND 0xFF) @ fmt_x 2 (b ! 13 AND 0xFF) @ fmt_x 2 (b ! 14 AND 0xFF))"
  by (simp add: makeProjectGUIDfromString_def Let_def eval_nat_numeral)

lemma guid_pattern_parts:
  assumes "length a = 8" "length b = 4" "length c = 3" "length d = 3" "length e = 12"
    and "list_all is_hex_digit a" "list_all is_hex_digit b" "list_all is_hex_digit c"
      "list_all is_hex_digit d" "list_all is_hex_digit e"
  shows "guid_pattern (a @ wxT ''-'' @ b @ wxT ''-1'' @ c @ wxT ''-9'' @ d @ wxT ''-'' @ e)"
  using assms by (simp add: guid_pattern_def wxT_def wxChr_def nth_append)

lemma length_hex_byte: "length (fmt_x 2 (c AND 0xFF)) = 2"
  by (rule length_fmt_x [OF byte_lt]) simp

lemma guid_shape: "guid_pattern (makeProjectGUIDfromString aText)"
proof -
  define b where "b = guid_bname aText"
  define p where "p = (\<lambda>i. fmt_x 2 (b ! i AND 0xFF))"
  define c where "c = fmt_x 3 ((push_bit 4 (b ! 6) AND 0xFF0) + (drop_bit 4 (b ! 7) AND 0x0F))"
  define d where "d = fmt_x 3 (push_bit 8 (b ! 7 AND 0x0F) + (b ! 8 AND 0xFF))"
  have lp: "length (p i) = 2" for i unfolding p_def by (rule length_hex_byte)
  have hp: "list_all is_hex_digit (p i)" for i unfolding p_def by (rule fmt_x_digits)
  have lc: "length c = 3" unfolding c_def by (rule length_fmt_x [OF version_field_lt]) simp
  have ld: "length d = 3" unfolding d_def by (rule length_fmt_x [OF variant_field_lt]) simp
  have hc: "list_all is_hex_digit c" unfolding c_def by (rule fmt_x_digits)
  have hd: "list_all is_hex_digit d" unfolding d_def by (rule fmt_x_digits)
  have "guid_pattern ((p 0 @ p 1 @ p 2 @ p 3) @ wxT ''-'' @ (p 4 @ p 5) @ wxT ''-1'' @ c
          @ wxT ''-9'' @ d @ wxT ''-'' @ (p 9 @ p 10 @ p 11 @ p 12 @ p 13 @ p 14))"
    by (rule guid_pattern_parts) (simp_all add: lp hp lc ld hc hd)
  moreover have "makeProjectGUIDfromString aText =
      (p 0 @ p 1 @ p 2 @ p 3) @ wxT ''-'' @ (p 4 @ p 5) @ wxT ''-1'' @ c
          @ wxT ''-9'' @ d @ wxT ''-'' @ (p 9 @ p 10 @ p 11 @ p 12 @ p 13 @ p 14)"
    unfolding guid_formula p_def c_def d_def b_def Let_def by (simp only: append_assoc)
  ultimately show ?thesis by simp
qed

lemma guid_no_nul: "0 \<notin> set (makeProjectGUIDfromString aText)"
  unfolding guid_formula Let_def by (simp add: fmt_x_no_nul wxT_def)

text \<open>
  The working copy of a name: padded when short, never shorter than 16, so that every
  index the function reads (0 to 14) is inside it.
\<close>

lemma guid_bname_short:
  assumes "length aText < 16"
  shows "guid_bname aText = pad16 aText"
proof -
  have "signed_take_bit 31 (16 - int (length aText)) = 16 - int (length aText)"
    using assms by (intro signed_take_bit_int_eq_self) auto
  with assms show ?thesis by (simp add: guid_bname_def pad16_def Let_def nat_diff_distrib')
qed

lemma guid_bname_long:
  assumes "16 \<le> length aText"
  shows "\<exists>k. guid_bname aText = aText @ replicate k (wxChr CHR ''X'')"
proof (cases "signed_take_bit 31 (16 - int (length aText)) > (0::int)")
  case True
  then show ?thesis by (auto simp: guid_bname_def Let_def)
next
  case False
  then have "guid_bname aText = aText @ replicate 0 (wxChr CHR ''X'')"
    by (simp add: guid_bname_def Let_def)
  then show ?thesis by blast
qed

lemma guid_bname_length: "16 \<le> length (guid_bname aText)"
proof (cases "length aText < 16")
  case True
  then show ?thesis by (simp add: guid_bname_short pad16_def)
next
  case False
  then obtain k where "guid_bname aText = aText @ replicate k (wxChr CHR ''X'')"
    using guid_bname_long [of aText] by auto
  with False show ?thesis by simp
qed

lemma take15_guid_bname: "take 15 (guid_bname aText) = take 15 (pad16 aText)"
proof (cases "length aText < 16")
  case True
  then show ?thesis by (simp add: guid_bname_short)
next
  case False
  then obtain k where "guid_bname aText = aText @ replicate k (wxChr CHR ''X'')"
    using guid_bname_long [of aText] by auto
  with False show ?thesis by (simp add: pad16_def)
qed

lemma guid_bname_nth: "i < 15 \<Longrightarrow> guid_bname aText ! i = take 15 (pad16 aText) ! i"
  using take15_guid_bname [of aText] by (metis nth_take)

lemma guid_abc:
  "makeProjectGUIDfromString (wxT ''abc'') = wxT ''61626358-5858-1585-9858-585858585858''"
proof -
  have b: "guid_bname (wxT ''abc'') = wxT ''abcXXXXXXXXXXXXX''" by code_simp
  show ?thesis unfolding guid_formula b Let_def
    by (simp add: fmt_x_def hex_nat.simps wxT_def wxChr_def)
qed

lemma guid_board:
  "makeProjectGUIDfromString (wxT ''board.kicad_pcb'') =
     wxT ''626f6172-642e-16b6-9963-61645f706362''"
proof -
  have b: "guid_bname (wxT ''board.kicad_pcb'') = wxT ''board.kicad_pcbX''" by code_simp
  show ?thesis unfolding guid_formula b Let_def
    by (simp add: fmt_x_def hex_nat.simps wxT_def wxChr_def)
qed

lemma guid_long_name:
  "makeProjectGUIDfromString (wxT ''a_rather_long_board_name.kicad_pcb'') =
     wxT ''615f7261-7468-1657-925f-6c6f6e675f62''"
proof -
  have b: "guid_bname (wxT ''a_rather_long_board_name.kicad_pcb'') =
      wxT ''a_rather_long_board_name.kicad_pcb''" by code_simp
  show ?thesis unfolding guid_formula b Let_def
    by (simp add: fmt_x_def hex_nat.simps wxT_def wxChr_def)
qed

text \<open>
  C1. \<open>makeProjectGUIDfromString\<close> (the project GUID) is a function of the name alone:
  equal names give equal results. For every name, shorter than the 16 characters of the
  working buffer or longer, the result matches the pattern
  \<^verbatim>\<open>^[0-9a-f]{8}-[0-9a-f]{4}-1[0-9a-f]{3}-9[0-9a-f]{3}-[0-9a-f]{12}$\<close>.
  The working copy of a name shorter than 16 characters is the name filled up on the
  right with the filler \<^verbatim>\<open>'X'\<close>.
\<close>

theorem makeProjectGUIDfromString_pattern:
  "guid_pattern (makeProjectGUIDfromString aText) \<and>
   (\<forall>bText. bText = aText \<longrightarrow>
      makeProjectGUIDfromString bText = makeProjectGUIDfromString aText) \<and>
   (length aText < 16 \<longrightarrow>
      guid_bname aText = aText @ replicate (16 - length aText) (wxChr CHR ''X''))"
  using guid_shape [of aText] guid_bname_short [of aText] by (simp add: pad16_def)

text \<open>
  The statement at the name \<^verbatim>\<open>abc\<close>, which is padded with thirteen \<^verbatim>\<open>X\<close>, and at a name
  of 34 characters.
\<close>

theorem makeProjectGUIDfromString_pattern_witness:
  "length (wxT ''abc'') < 16 \<and>
   guid_bname (wxT ''abc'') = wxT ''abc'' @ replicate 13 (wxChr CHR ''X'') \<and>
   makeProjectGUIDfromString (wxT ''abc'') = wxT ''61626358-5858-1585-9858-585858585858'' \<and>
   guid_pattern (wxT ''61626358-5858-1585-9858-585858585858'') \<and>
   makeProjectGUIDfromString (wxT ''a_rather_long_board_name.kicad_pcb'') =
     wxT ''615f7261-7468-1657-925f-6c6f6e675f62'' \<and>
   guid_pattern (wxT ''615f7261-7468-1657-925f-6c6f6e675f62'')"
  using makeProjectGUIDfromString_pattern [of "wxT ''abc''"]
    makeProjectGUIDfromString_pattern [of "wxT ''a_rather_long_board_name.kicad_pcb''"]
    guid_abc guid_long_name
  by (simp add: wxT_def wxChr_def)

text \<open>
  C10. Two names whose padded forms agree on the characters 0 to 14 have the same
  GUID: the sixteenth character of the buffer and everything after it never reach the
  result.
\<close>

theorem makeProjectGUIDfromString_first_15:
  assumes "take 15 (pad16 aText) = take 15 (pad16 bText)"
  shows "makeProjectGUIDfromString aText = makeProjectGUIDfromString bText"
proof -
  have "guid_bname aText ! i = guid_bname bText ! i" if "i < 15" for i
    using that assms by (simp add: guid_bname_nth)
  then have
    "guid_bname aText ! 0 = guid_bname bText ! 0" "guid_bname aText ! 1 = guid_bname bText ! 1"
    "guid_bname aText ! 2 = guid_bname bText ! 2" "guid_bname aText ! 3 = guid_bname bText ! 3"
    "guid_bname aText ! 4 = guid_bname bText ! 4" "guid_bname aText ! 5 = guid_bname bText ! 5"
    "guid_bname aText ! 6 = guid_bname bText ! 6" "guid_bname aText ! 7 = guid_bname bText ! 7"
    "guid_bname aText ! 8 = guid_bname bText ! 8" "guid_bname aText ! 9 = guid_bname bText ! 9"
    "guid_bname aText ! 10 = guid_bname bText ! 10"
    "guid_bname aText ! 11 = guid_bname bText ! 11"
    "guid_bname aText ! 12 = guid_bname bText ! 12"
    "guid_bname aText ! 13 = guid_bname bText ! 13"
    "guid_bname aText ! 14 = guid_bname bText ! 14"
    by simp_all
  then show ?thesis unfolding guid_formula Let_def by (simp only:)
qed

text \<open>
  The statement at two different names: one of 21 characters, and its first 15
  characters alone (which are padded with one \<^verbatim>\<open>X\<close>).
\<close>

theorem makeProjectGUIDfromString_first_15_witness:
  "wxT ''board_rev_A.kicad_pcb'' \<noteq> wxT ''board_rev_A.kic'' \<and>
   take 15 (pad16 (wxT ''board_rev_A.kicad_pcb'')) = take 15 (pad16 (wxT ''board_rev_A.kic'')) \<and>
   makeProjectGUIDfromString (wxT ''board_rev_A.kicad_pcb'') =
     makeProjectGUIDfromString (wxT ''board_rev_A.kic'')"
proof -
  have h: "take 15 (pad16 (wxT ''board_rev_A.kicad_pcb'')) =
      take 15 (pad16 (wxT ''board_rev_A.kic''))"
    by (simp add: pad16_def wxT_def wxChr_def)
  have d: "wxT ''board_rev_A.kicad_pcb'' \<noteq> wxT ''board_rev_A.kic''"
    by (simp add: wxT_def)
  from d h makeProjectGUIDfromString_first_15 [OF h] show ?thesis by simp
qed

subsection \<open>Header lines\<close>

lemma AddLineToHeader_lines:
  "m_headerExtraStr (AddLineToHeader l p) = m_headerExtraStr p @ [l]"
  by (simp add: AddLineToHeader_def)

text \<open>The four lines that \<open>AddGerberX2Header\<close> appends to the header of the plotter.\<close>

lemma AddGerberX2Header_lines:
  "m_headerExtraStr
     (AddGerberX2Header buildVersion dateISOCombined dateZ aPlotter aBoard x1mode) =
     m_headerExtraStr aPlotter @
       [makeStringCompatX1
          (wxT ''%TF.GenerationSoftware,KiCad,Pcbnew,'' @ GetChars buildVersion @ wxT ''*%'')
          x1mode,
        makeStringCompatX1
          (if length dateZ > 3 then
             wxT ''%TF.CreationDate,'' @ GetChars dateISOCombined
               @ GetChars (insert_at 3 (wxT '':'') dateZ) @ wxT ''*%''
           else makeStringCompatX1
                  (wxT ''%TF.GenerationSoftware,KiCad,Pcbnew,'' @ GetChars buildVersion
                     @ wxT ''*%'') x1mode) x1mode,
        makeStringCompatX1
          (wxT ''%TF.ProjectId,''
             @ GetChars (ToAscii (Replace (wxChr CHR '','') (wxT ''_'')
                                    (GetName (GetFileName aBoard))))
             @ wxT '',''
             @ GetChars (makeProjectGUIDfromString (GetFullName (GetFileName aBoard)))
             @ wxT '',''
             @ GetChars (ToAscii
                 (if Replace (wxChr CHR '','') (wxT ''_'') (GetRevision aBoard) = []
                  then wxT ''rev?''
                  else Replace (wxChr CHR '','') (wxT ''_'') (GetRevision aBoard)))
             @ wxT ''*%'') x1mode,
        makeStringCompatX1
          (wxT ''%TF.SameCoordinates,''
             @ GetChars
                 (if GetUseAuxOrigin (GetPlotOptions aBoard) \<and> pt_x (GetAuxOrigin aBoard) \<noteq> 0
                     \<and> pt_y (GetAuxOrigin aBoard) \<noteq> 0
                  then wxT ''PX'' @ fmt_x 1 (to_unsigned (pt_x (GetAuxOrigin aBoard)))
                         @ wxT ''PY'' @ fmt_x 1 (to_unsigned (pt_y (GetAuxOrigin aBoard)))
                  else wxT ''Original'')
             @ wxT ''*%'') x1mode]"
  unfolding AddGerberX2Header_def Let_def
  by (cases "length dateZ > 3") (simp_all add: AddLineToHeader_lines)

text \<open>
  C2, as the code has it. When the time zone offset text has more than three
  characters, the second line that \<open>AddGerberX2Header\<close> emits is the compatibility
  transform of \<^verbatim>\<open>%TF.CreationDate,<ISO8601-combined><offset>*%\<close>, where the offset is the
  offset text with a colon put in after its third character (before the last two digits
  of an offset of the form \<^verbatim>\<open>+hhmm\<close>): the attribute line itself when the compatibility
  mode is off, the comment \<^verbatim>\<open>G04 #@! TF.CreationDate,...*\<close> when it is on.
\<close>

theorem AddGerberX2Header_creation_date:
  assumes "length dateZ > 3"
  shows "\<exists>l1 l3 l4.
     m_headerExtraStr
       (AddGerberX2Header buildVersion dateISOCombined dateZ aPlotter aBoard x1mode) =
       m_headerExtraStr aPlotter @
         [l1,
          makeStringCompatX1
            (wxT ''%TF.CreationDate,'' @ GetChars dateISOCombined
               @ GetChars (take 3 dateZ @ wxT '':'' @ drop 3 dateZ) @ wxT ''*%'') x1mode,
          l3, l4]"
  unfolding AddGerberX2Header_lines using assms by (simp add: insert_at_def)

text \<open>The statement at the offset \<^verbatim>\<open>+0100\<close>, compatibility mode off.\<close>

theorem AddGerberX2Header_creation_date_witness:
  "length (wxT ''+0100'') > 3 \<and>
   m_headerExtraStr
     (AddGerberX2Header (wxT ''5.0.0'') (wxT ''2018-07-01T10:00:00'') (wxT ''+0100'')
        new_plotter sample_board False) ! 1
     = wxT ''%TF.CreationDate,2018-07-01T10:00:00+01:00*%''"
proof -
  have h: "length (wxT ''+0100'') > 3" by (simp add: wxT_def)
  have e: "makeStringCompatX1
            (wxT ''%TF.CreationDate,'' @ GetChars (wxT ''2018-07-01T10:00:00'')
               @ GetChars (take 3 (wxT ''+0100'') @ wxT '':'' @ drop 3 (wxT ''+0100''))
               @ wxT ''*%'') False
       = wxT ''%TF.CreationDate,2018-07-01T10:00:00+01:00*%''"
    by (simp add: makeStringCompatX1_def GetChars_def wxT_def)
  have n: "m_headerExtraStr new_plotter = []" by (simp add: new_plotter_def)
  from AddGerberX2Header_creation_date
         [OF h, of "wxT ''5.0.0''" "wxT ''2018-07-01T10:00:00''" new_plotter sample_board False]
  obtain l1 l3 l4 where
    "m_headerExtraStr
       (AddGerberX2Header (wxT ''5.0.0'') (wxT ''2018-07-01T10:00:00'') (wxT ''+0100'')
          new_plotter sample_board False)
     = [l1, wxT ''%TF.CreationDate,2018-07-01T10:00:00+01:00*%'', l3, l4]"
    unfolding e n by auto
  then show ?thesis using h by simp
qed

text \<open>
  The claim C2 as it is written fails in compatibility mode: for the offset \<^verbatim>\<open>+0100\<close>
  the second line emitted is the comment form, not an attribute line
  \<^verbatim>\<open>%TF.CreationDate,...*%\<close>.
\<close>

theorem AddGerberX2Header_creation_date_counterexample:
  "m_headerExtraStr
     (AddGerberX2Header (wxT ''5.0.0'') (wxT ''2018-07-01T10:00:00'') (wxT ''+0100'')
        new_plotter sample_board True) ! 1
     = wxT ''G04 #@! TF.CreationDate,2018-07-01T10:00:00+01:00*'' \<and>
   m_headerExtraStr
     (AddGerberX2Header (wxT ''5.0.0'') (wxT ''2018-07-01T10:00:00'') (wxT ''+0100'')
        new_plotter sample_board True) ! 1
     \<noteq> wxT ''%TF.CreationDate,2018-07-01T10:00:00+01:00*%''"
proof -
  have "m_headerExtraStr
     (AddGerberX2Header (wxT ''5.0.0'') (wxT ''2018-07-01T10:00:00'') (wxT ''+0100'')
        new_plotter sample_board True) ! 1
     = makeStringCompatX1
          (if length (wxT ''+0100'') > 3 then
             wxT ''%TF.CreationDate,'' @ GetChars (wxT ''2018-07-01T10:00:00'')
               @ GetChars (insert_at 3 (wxT '':'') (wxT ''+0100'')) @ wxT ''*%''
           else makeStringCompatX1
                  (wxT ''%TF.GenerationSoftware,KiCad,Pcbnew,'' @ GetChars (wxT ''5.0.0'')
                     @ wxT ''*%'') True) True"
    unfolding AddGerberX2Header_lines by (simp add: new_plotter_def)
  also have "\<dots> = wxT ''G04 #@! TF.CreationDate,2018-07-01T10:00:00+01:00*''"
    by (simp add: makeStringCompatX1_def GetChars_def insert_at_def Replace_def wxT_def
          wxChr_def)
  finally have a: "m_headerExtraStr
     (AddGerberX2Header (wxT ''5.0.0'') (wxT ''2018-07-01T10:00:00'') (wxT ''+0100'')
        new_plotter sample_board True) ! 1
     = wxT ''G04 #@! TF.CreationDate,2018-07-01T10:00:00+01:00*''" .
  have "wxT ''G04 #@! TF.CreationDate,2018-07-01T10:00:00+01:00*'' \<noteq>
      wxT ''%TF.CreationDate,2018-07-01T10:00:00+01:00*%''"
    by (simp add: wxT_def)
  with a show ?thesis by simp
qed

text \<open>
  When the offset text has at most three characters, the creation date is not printed
  at all: the text of the first line, already transformed, goes through the transform and
  into the header a second time.
\<close>

lemma AddGerberX2Header_short_offset:
  assumes "length dateZ \<le> 3"
  shows "\<exists>l1 l3 l4.
     m_headerExtraStr
       (AddGerberX2Header buildVersion dateISOCombined dateZ aPlotter aBoard x1mode) =
       m_headerExtraStr aPlotter @ [l1, makeStringCompatX1 l1 x1mode, l3, l4] \<and>
     l1 = makeStringCompatX1
            (wxT ''%TF.GenerationSoftware,KiCad,Pcbnew,'' @ GetChars buildVersion @ wxT ''*%'')
            x1mode"
  unfolding AddGerberX2Header_lines using assms by simp

lemma AddGerberX2Header_short_offset_example:
  "m_headerExtraStr
     (AddGerberX2Header (wxT ''5.0.0'') (wxT ''2018-07-01T10:00:00'') (wxT ''+00'')
        new_plotter sample_board False) ! 1
     = wxT ''%TF.GenerationSoftware,KiCad,Pcbnew,5.0.0*%'' \<and>
   m_headerExtraStr
     (AddGerberX2Header (wxT ''5.0.0'') (wxT ''2018-07-01T10:00:00'') (wxT ''+00'')
        new_plotter sample_board True) ! 1
     = wxT ''G04 #@! G04 #@! TF.GenerationSoftware,KiCad,Pcbnew,5.0.0*''"
  unfolding AddGerberX2Header_lines
  by (simp add: new_plotter_def makeStringCompatX1_def GetChars_def Replace_def wxT_def
        wxChr_def)

text \<open>
  C8. For a board whose revision is empty, the revision field of the project id line
  (the third line) is the literal \<^verbatim>\<open>rev?\<close>. The key of the same-coordinates line (the
  fourth line) is the literal \<^verbatim>\<open>Original\<close> when the auxiliary origin is not used or has a
  zero coordinate, and \<^verbatim>\<open>PX<x>PY<y>\<close> with the coordinates in hexadecimal otherwise. Both
  lines pass through the compatibility transform, which leaves the fields as they are.
\<close>

theorem AddGerberX2Header_revision_and_key:
  "\<exists>l1 l2 l3.
     m_headerExtraStr
       (AddGerberX2Header buildVersion dateISOCombined dateZ aPlotter aBoard x1mode) =
       m_headerExtraStr aPlotter @
         [l1, l2, l3,
          makeStringCompatX1
            (wxT ''%TF.SameCoordinates,''
               @ (if GetUseAuxOrigin (GetPlotOptions aBoard) \<and> pt_x (GetAuxOrigin aBoard) \<noteq> 0
                     \<and> pt_y (GetAuxOrigin aBoard) \<noteq> 0
                  then wxT ''PX'' @ fmt_x 1 (to_unsigned (pt_x (GetAuxOrigin aBoard)))
                         @ wxT ''PY'' @ fmt_x 1 (to_unsigned (pt_y (GetAuxOrigin aBoard)))
                  else wxT ''Original'')
               @ wxT ''*%'') x1mode] \<and>
     (GetRevision aBoard = [] \<longrightarrow>
        l3 = makeStringCompatX1
               (wxT ''%TF.ProjectId,''
                  @ GetChars (ToAscii (Replace (wxChr CHR '','') (wxT ''_'')
                                         (GetName (GetFileName aBoard))))
                  @ wxT '','' @ makeProjectGUIDfromString (GetFullName (GetFileName aBoard))
                  @ wxT '',rev?*%'') x1mode)"
proof -
  have o: "GetChars (wxT ''Original'') = wxT ''Original''"
    by (rule GetChars_id) (simp add: wxT_def)
  have x: "GetChars (wxT ''PX'' @ fmt_x j a @ wxT ''PY'' @ fmt_x j b) =
      wxT ''PX'' @ fmt_x j a @ wxT ''PY'' @ fmt_x j b" for a b j
    by (rule GetChars_id) (simp add: wxT_def fmt_x_no_nul)
  have r: "GetChars (ToAscii (wxT ''rev?'')) = wxT ''rev?''"
    by (simp add: wxT_def ToAscii_def GetChars_def)
  have g: "GetChars (makeProjectGUIDfromString t) = makeProjectGUIDfromString t" for t
    by (rule GetChars_id) (rule guid_no_nul)
  have e: "Replace c n [] = []" for c n by (simp add: Replace_def)
  have k: "wxT '',rev?*%'' = wxT '','' @ wxT ''rev?'' @ wxT ''*%''" by (simp add: wxT_def)
  show ?thesis unfolding AddGerberX2Header_lines
    by (simp add: o x r g e k)
qed

text \<open>
  The statement at a board \<^verbatim>\<open>board.kicad_pcb\<close> with an empty revision: once with the
  auxiliary origin off, once with the auxiliary origin (255, -1) in use.
\<close>

theorem AddGerberX2Header_revision_and_key_witness:
  "GetRevision sample_board = [] \<and>
   drop 2 (m_headerExtraStr
     (AddGerberX2Header (wxT ''5.0.0'') (wxT ''2018-07-01T10:00:00'') (wxT ''+0100'')
        new_plotter sample_board False))
     = [wxT ''%TF.ProjectId,board,626f6172-642e-16b6-9963-61645f706362,rev?*%'',
        wxT ''%TF.SameCoordinates,Original*%''] \<and>
   drop 3 (m_headerExtraStr
     (AddGerberX2Header (wxT ''5.0.0'') (wxT ''2018-07-01T10:00:00'') (wxT ''+0100'')
        new_plotter sample_board_aux False))
     = [wxT ''%TF.SameCoordinates,PXffPYffffffff*%'']"
proof -
  have r: "GetRevision sample_board = []" by (simp add: sample_board_def)
  have n: "m_headerExtraStr new_plotter = []" by (simp add: new_plotter_def)
  have f: "GetFullName (GetFileName sample_board) = wxT ''board.kicad_pcb''"
    by (simp add: sample_board_def GetFullName_def wxT_def)
  have i: "GetChars (ToAscii (Replace (wxChr CHR '','') (wxT ''_'')
              (GetName (GetFileName sample_board)))) = wxT ''board''"
    by (simp add: sample_board_def GetName_def Replace_def ToAscii_def GetChars_def wxT_def
          wxChr_def)
  have k: "\<not> GetUseAuxOrigin (GetPlotOptions sample_board)" by (simp add: sample_board_def)
  have a: "drop 2 (m_headerExtraStr
     (AddGerberX2Header (wxT ''5.0.0'') (wxT ''2018-07-01T10:00:00'') (wxT ''+0100'')
        new_plotter sample_board False))
     = [wxT ''%TF.ProjectId,board,626f6172-642e-16b6-9963-61645f706362,rev?*%'',
        wxT ''%TF.SameCoordinates,Original*%'']"
    using AddGerberX2Header_revision_and_key
            [of "wxT ''5.0.0''" "wxT ''2018-07-01T10:00:00''" "wxT ''+0100''" new_plotter
               sample_board False]
    unfolding n f i guid_board
    using r k by (auto simp: makeStringCompatX1_def wxT_def)
  have u: "GetUseAuxOrigin (GetPlotOptions sample_board_aux)"
    "pt_x (GetAuxOrigin sample_board_aux) = 255" "pt_y (GetAuxOrigin sample_board_aux) = - 1"
    by (simp_all add: sample_board_aux_def sample_board_def)
  have tu: "to_unsigned 255 = 255" "to_unsigned (- 1) = 4294967295"
    by (simp_all add: to_unsigned_def take_bit_eq_mod)
  have hx: "fmt_x 1 (to_unsigned 255) = wxT ''ff''"
    "fmt_x 1 (to_unsigned (- 1)) = wxT ''ffffffff''"
    unfolding tu by (simp_all add: fmt_x_def hex_nat.simps wxT_def wxChr_def)
  have b: "drop 3 (m_headerExtraStr
     (AddGerberX2Header (wxT ''5.0.0'') (wxT ''2018-07-01T10:00:00'') (wxT ''+0100'')
        new_plotter sample_board_aux False))
     = [wxT ''%TF.SameCoordinates,PXffPYffffffff*%'']"
    using AddGerberX2Header_revision_and_key
            [of "wxT ''5.0.0''" "wxT ''2018-07-01T10:00:00''" "wxT ''+0100''" new_plotter
               sample_board_aux False] u(1)
    unfolding n u(2) u(3) hx
    by (auto simp: makeStringCompatX1_def wxT_def)
  from r a b show ?thesis by simp
qed

subsection \<open>Plot file names\<close>

lemma Replace_char: "Replace old [new] s = map (\<lambda>c. if c = old then new else c) s"
  by (induction s) (simp_all add: Replace_def)

lemma fold_Replace:
  "new \<notin> set bad \<Longrightarrow>
   fold (\<lambda>b s. Replace b [new] s) bad s = map (\<lambda>c. if c \<in> set bad then new else c) s"
proof (induction bad arbitrary: s)
  case Nil
  then show ?case by simp
next
  case (Cons b bad)
  then show ?case by (auto simp: Replace_char)
qed

lemma underscore_not_bad:
  "wxChr CHR ''_'' \<notin> set (GetForbiddenChars_DOS @ [wxChr CHR ''%''])"
  by (simp add: GetForbiddenChars_DOS_def wxChr_def)

lemma suffix_sanitized:
  "fold (\<lambda>bad s. Replace bad (wxT ''_'') s) (GetForbiddenChars_DOS @ [wxChr CHR ''%'']) s =
   map (\<lambda>c. if c \<in> set GetForbiddenChars_DOS \<or> c = wxChr CHR ''%'' then wxChr CHR ''_''
             else c) s"
proof -
  have "wxT ''_'' = [wxChr CHR ''_'']" by (simp add: wxT_def wxChr_def)
  then show ?thesis using fold_Replace [OF underscore_not_bad, of s] by simp
qed

lemma BuildPlotFileName_fields:
  "BuildPlotFileName aFilename aOutputDir aSuffix aExtension =
     (let suffix = map (\<lambda>c. if c \<in> set GetForbiddenChars_DOS \<or> c = wxChr CHR ''%''
                               then wxChr CHR ''_'' else c)
                       (Trim False (Trim True aSuffix))
      in \<lparr> m_path = aOutputDir,
           m_name = (if suffix \<noteq> [] then m_name aFilename @ wxT ''-'' @ suffix
                     else m_name aFilename),
           m_ext = aExtension,
           m_hasExt = (aExtension \<noteq> []) \<rparr>)"
  unfolding BuildPlotFileName_def Let_def suffix_sanitized
  by (simp add: SetPath_def SetExt_def SetName_def GetName_def)

text \<open>
  Trimming on both sides: what is cut off is white space only, and what is left
  neither starts nor ends with white space.
\<close>

lemma Trim_both:
  fixes s :: wxString
  defines "t \<equiv> Trim False (Trim True s)"
  shows "\<exists>ws1 ws2. s = ws1 @ t @ ws2 \<and> list_all wxSafeIsspace ws1 \<and> list_all wxSafeIsspace ws2"
    and "t \<noteq> [] \<Longrightarrow> \<not> wxSafeIsspace (hd t) \<and> \<not> wxSafeIsspace (last t)"
proof -
  define u where "u = Trim True s"
  define ws2 where "ws2 = rev (takeWhile wxSafeIsspace (rev s))"
  define ws1 where "ws1 = takeWhile wxSafeIsspace u"
  have su: "s = u @ ws2"
  proof -
    have "u @ ws2 = rev (takeWhile wxSafeIsspace (rev s) @ dropWhile wxSafeIsspace (rev s))"
      by (simp only: u_def ws2_def Trim_def rev_append if_True)
    also have "\<dots> = s" by (simp only: takeWhile_dropWhile_id rev_rev_ident)
    finally show ?thesis by simp
  qed
  have t: "t = dropWhile wxSafeIsspace u" by (simp add: t_def u_def Trim_def)
  have ut: "u = ws1 @ t" by (simp add: ws1_def t)
  have w2: "list_all wxSafeIsspace ws2"
    unfolding ws2_def list_all_iff by (auto dest: set_takeWhileD)
  have w1: "list_all wxSafeIsspace ws1"
    unfolding ws1_def list_all_iff by (auto dest: set_takeWhileD)
  from su ut w1 w2
  show "\<exists>ws1 ws2. s = ws1 @ t @ ws2 \<and> list_all wxSafeIsspace ws1 \<and> list_all wxSafeIsspace ws2"
    by auto
  assume ne: "t \<noteq> []"
  from ne t have h: "\<not> wxSafeIsspace (hd t)" by (simp add: hd_dropWhile)
  from ne ut have une: "u \<noteq> []" by auto
  from ne ut have "last t = last u" by simp
  also have "\<dots> = hd (dropWhile wxSafeIsspace (rev s))"
    using une by (simp add: u_def Trim_def last_rev)
  finally have "\<not> wxSafeIsspace (last t)"
    using une by (simp add: u_def Trim_def hd_dropWhile)
  with h show "\<not> wxSafeIsspace (hd t) \<and> \<not> wxSafeIsspace (last t)" ..
qed

lemma BuildPlotFileName_front_top:
  "GetFullPath (BuildPlotFileName board_name (wxT ''/out'') (wxT ''  Front/Top:1 '') (wxT ''gbr''))
     = wxT ''/out/board-Front_Top_1.gbr''"
proof -
  have t: "Trim False (Trim True (wxT ''  Front/Top:1 '')) = wxT ''Front/Top:1''"
    by (simp add: Trim_def wxSafeIsspace_def wxT_def)
  show ?thesis unfolding BuildPlotFileName_fields t
    by (simp add: board_name_def GetFullPath_def GetFullName_def GetForbiddenChars_DOS_def
          wxT_def wxChr_def)
qed

lemma BuildPlotFileName_empty_suffix:
  "GetFullPath (BuildPlotFileName board_name (wxT ''/out'') (wxT '''') (wxT ''gbr''))
     = wxT ''/out/board.gbr''"
proof -
  have t: "Trim False (Trim True (wxT '''')) = []"
    by (simp add: Trim_def wxT_def)
  show ?thesis unfolding BuildPlotFileName_fields t
    by (simp add: board_name_def GetFullPath_def GetFullName_def wxT_def wxChr_def)
qed

text \<open>
  C6. \<open>BuildPlotFileName\<close> sets the directory and the extension whatever the suffix is.
  The suffix is trimmed of the white space on both ends; in what remains every character
  forbidden in a DOS file name, and the percent sign, becomes an underscore; a hyphen and
  this suffix are appended to the base name if and only if the suffix is not empty. The
  base name \<^verbatim>\<open>board\<close>, directory \<^verbatim>\<open>/out\<close> and extension \<^verbatim>\<open>gbr\<close> give
  \<^verbatim>\<open>/out/board-Front_Top_1.gbr\<close> with the suffix \<^verbatim>\<open>"  Front/Top:1 "\<close> and
  \<^verbatim>\<open>/out/board.gbr\<close> with the empty suffix.
\<close>

theorem BuildPlotFileName_result:
  "(let trimmed = Trim False (Trim True aSuffix);
        sanitized = map (\<lambda>c. if c \<in> set GetForbiddenChars_DOS \<or> c = wxChr CHR ''%''
                                  then wxChr CHR ''_'' else c) trimmed;
        res = BuildPlotFileName aFilename aOutputDir aSuffix aExtension
    in GetPath res = aOutputDir \<and> m_ext res = aExtension \<and>
       m_hasExt res = (aExtension \<noteq> []) \<and>
       (\<exists>ws1 ws2. aSuffix = ws1 @ trimmed @ ws2 \<and> list_all wxSafeIsspace ws1
                    \<and> list_all wxSafeIsspace ws2) \<and>
       (trimmed \<noteq> [] \<longrightarrow> \<not> wxSafeIsspace (hd trimmed) \<and> \<not> wxSafeIsspace (last trimmed)) \<and>
       GetName res = (if sanitized \<noteq> [] then GetName aFilename @ wxT ''-'' @ sanitized
                      else GetName aFilename)) \<and>
   GetFullPath (BuildPlotFileName board_name (wxT ''/out'') (wxT ''  Front/Top:1 '') (wxT ''gbr''))
     = wxT ''/out/board-Front_Top_1.gbr'' \<and>
   GetFullPath (BuildPlotFileName board_name (wxT ''/out'') (wxT '''') (wxT ''gbr''))
     = wxT ''/out/board.gbr''"
proof -
  have f: "GetPath (BuildPlotFileName aFilename aOutputDir aSuffix aExtension) = aOutputDir"
    "m_ext (BuildPlotFileName aFilename aOutputDir aSuffix aExtension) = aExtension"
    "m_hasExt (BuildPlotFileName aFilename aOutputDir aSuffix aExtension) = (aExtension \<noteq> [])"
    "GetName (BuildPlotFileName aFilename aOutputDir aSuffix aExtension) =
       (if map (\<lambda>c. if c \<in> set GetForbiddenChars_DOS \<or> c = wxChr CHR ''%''
                      then wxChr CHR ''_'' else c) (Trim False (Trim True aSuffix)) \<noteq> []
        then GetName aFilename @ wxT ''-'' @
             map (\<lambda>c. if c \<in> set GetForbiddenChars_DOS \<or> c = wxChr CHR ''%''
                      then wxChr CHR ''_'' else c) (Trim False (Trim True aSuffix))
        else GetName aFilename)"
    unfolding BuildPlotFileName_fields by (simp_all add: Let_def GetPath_def GetName_def)
  show ?thesis
    unfolding Let_def f
    using Trim_both(1) [of aSuffix] Trim_both(2) [of aSuffix]
      BuildPlotFileName_front_top BuildPlotFileName_empty_suffix
    by (intro conjI impI) simp_all
qed

text \<open>
  The general part of the statement at the suffix \<^verbatim>\<open>" B.Cu%*? "\<close>: the trimmed suffix
  \<^verbatim>\<open>B.Cu%*?\<close> is not empty, and the name becomes \<^verbatim>\<open>board-B.Cu___\<close>.
\<close>

theorem BuildPlotFileName_result_witness:
  "Trim False (Trim True (wxT '' B.Cu%*? '')) \<noteq> [] \<and>
   \<not> wxSafeIsspace (hd (Trim False (Trim True (wxT '' B.Cu%*? '')))) \<and>
   \<not> wxSafeIsspace (last (Trim False (Trim True (wxT '' B.Cu%*? '')))) \<and>
   GetName (BuildPlotFileName board_name (wxT ''/out'') (wxT '' B.Cu%*? '') (wxT ''gbr''))
     = wxT ''board-B.Cu___'' \<and>
   GetPath (BuildPlotFileName board_name (wxT ''/out'') (wxT '' B.Cu%*? '') (wxT ''gbr''))
     = wxT ''/out''"
proof -
  have t: "Trim False (Trim True (wxT '' B.Cu%*? '')) = wxT ''B.Cu%*?''"
    by (simp add: Trim_def wxSafeIsspace_def wxT_def)
  have ne: "wxT ''B.Cu%*?'' \<noteq> []" by (simp add: wxT_def)
  have s: "map (\<lambda>c. if c \<in> set GetForbiddenChars_DOS \<or> c = wxChr CHR ''%''
                      then wxChr CHR ''_'' else c) (wxT ''B.Cu%*?'') = wxT ''B.Cu___''"
    by (simp add: GetForbiddenChars_DOS_def wxT_def wxChr_def)
  have n: "GetName board_name @ wxT ''-'' @ wxT ''B.Cu___'' = wxT ''board-B.Cu___''"
    by (simp add: board_name_def GetName_def wxT_def)
  have s_ne: "wxT ''B.Cu___'' \<noteq> []" by (simp add: wxT_def)
  from BuildPlotFileName_result
         [of "wxT '' B.Cu%*? ''" board_name "wxT ''/out''" "wxT ''gbr''"]
  show ?thesis unfolding Let_def t s using ne s_ne n by simp
qed

subsection \<open>Plot session controller\<close>

lemma ClosePlot_cases:
  "ClosePlot (c, tr) =
     (c\<lparr>m_plotter := None\<rparr>,
      tr @ (case m_plotter c of Some p \<Rightarrow> [Ev_EndPlot p] | None \<Rightarrow> []))"
  by (cases "m_plotter c") (simp_all add: ClosePlot_def)

text \<open>
  C9. \<open>OpenPlotfile\<close> first ends the plot of a plotter that is still open, before it
  asks for the output directory. It returns true exactly when the controller holds a
  plotter afterwards. If the directory cannot be ensured, it returns false, the
  controller holds no plotter, and no plotter is asked for. If the directory is there,
  the controller holds what \<^verbatim>\<open>StartPlotBoard\<close> answered: when that is the null pointer,
  the result is false and the controller holds no plotter. Every failure is a returned
  value.
\<close>

theorem OpenPlotfile_result:
  fixes E :: plot_env and c :: PLOT_CONTROLLER
  shows
  "case OpenPlotfile E aSuffix aFormat aSheetDesc (c, tr) of (r, c', tr') \<Rightarrow>
     (let closing = (case m_plotter c of Some p \<Rightarrow> [Ev_EndPlot p] | None \<Rightarrow> []);
          dir = DirName (GetOutputDirectory (m_plotOptions c));
          base = GetFullPath (GetFileName (m_board c));
          ensured = EnsureFileDirectoryExists E (tr @ closing) dir base;
          tr1 = tr @ closing @ [Ev_EnsureFileDirectoryExists dir base]
      in (r \<longleftrightarrow> m_plotter c' \<noteq> None) \<and>
         (\<not> fst ensured \<longrightarrow> \<not> r \<and> m_plotter c' = None \<and> tr' = tr1) \<and>
         (fst ensured \<longrightarrow>
            (\<exists>file. m_plotter c' =
                       StartPlotBoard E tr1 (m_board c)
                         ((m_plotOptions c)\<lparr>GetFormat := aFormat\<rparr>) (m_plotLayer c) file
                         aSheetDesc
                    \<and> tr' = tr1 @ [Ev_StartPlotBoard (m_plotLayer c) file aSheetDesc])))"
  by (simp add: OpenPlotfile_def ClosePlot_cases Let_def split_def)

text \<open>
  The statement at a controller that holds an open plotter: with collaborators that
  cannot make the directory the result is false and no plotter is held; with working
  collaborators the result is true; in both cases the first effect is the end of the
  plot that was open.
\<close>

theorem OpenPlotfile_result_witness:
  "\<not> fst (EnsureFileDirectoryExists env_no_directory ([] @ [Ev_EndPlot new_plotter])
            (DirName (GetOutputDirectory (m_plotOptions sample_controller)))
            (GetFullPath (GetFileName (m_board sample_controller)))) \<and>
   fst (OpenPlotfile env_no_directory (wxT ''F_Cu'') 1 (wxT ''sheet'') (sample_controller, []))
     = False \<and>
   m_plotter (fst (snd (OpenPlotfile env_no_directory (wxT ''F_Cu'') 1 (wxT ''sheet'')
                          (sample_controller, [])))) = None \<and>
   take 1 (snd (snd (OpenPlotfile env_no_directory (wxT ''F_Cu'') 1 (wxT ''sheet'')
                       (sample_controller, []))))
     = [Ev_EndPlot new_plotter] \<and>
   fst (EnsureFileDirectoryExists env_working ([] @ [Ev_EndPlot new_plotter])
            (DirName (GetOutputDirectory (m_plotOptions sample_controller)))
            (GetFullPath (GetFileName (m_board sample_controller)))) \<and>
   fst (OpenPlotfile env_working (wxT ''F_Cu'') 1 (wxT ''sheet'') (sample_controller, []))
     = True \<and>
   take 1 (snd (snd (OpenPlotfile env_working (wxT ''F_Cu'') 1 (wxT ''sheet'')
                       (sample_controller, []))))
     = [Ev_EndPlot new_plotter]"
proof -
  have p: "m_plotter sample_controller = Some new_plotter"
    by (simp add: sample_controller_def)
  have n: "\<not> fst (EnsureFileDirectoryExists env_no_directory tr d b)" for tr d b
    by (simp add: env_no_directory_def)
  have w: "fst (EnsureFileDirectoryExists env_working tr d b)" for tr d b
    by (simp add: env_working_def)
  have s: "StartPlotBoard env_working tr b opts l f d \<noteq> None" for tr b opts l f d
    by (simp add: env_working_def)
  from OpenPlotfile_result
         [where E = env_no_directory and aSuffix = "wxT ''F_Cu''" and aFormat = 1
            and aSheetDesc = "wxT ''sheet''" and c = sample_controller and tr = "[]"]
  have a: "fst (OpenPlotfile env_no_directory (wxT ''F_Cu'') 1 (wxT ''sheet'')
                  (sample_controller, [])) = False \<and>
      m_plotter (fst (snd (OpenPlotfile env_no_directory (wxT ''F_Cu'') 1 (wxT ''sheet'')
                          (sample_controller, [])))) = None \<and>
      take 1 (snd (snd (OpenPlotfile env_no_directory (wxT ''F_Cu'') 1 (wxT ''sheet'')
                       (sample_controller, []))))
        = [Ev_EndPlot new_plotter]"
    by (simp add: p n Let_def split_def)
  from OpenPlotfile_result
         [where E = env_working and aSuffix = "wxT ''F_Cu''" and aFormat = 1
            and aSheetDesc = "wxT ''sheet''" and c = sample_controller and tr = "[]"]
  have b: "fst (OpenPlotfile env_working (wxT ''F_Cu'') 1 (wxT ''sheet'')
                  (sample_controller, [])) = True \<and>
      take 1 (snd (snd (OpenPlotfile env_working (wxT ''F_Cu'') 1 (wxT ''sheet'')
                       (sample_controller, []))))
        = [Ev_EndPlot new_plotter]"
    by (auto simp: p w s Let_def split_def)
  from a b n w show ?thesis by simp
qed

end
